theory Spec2Isabelle
  imports
    Main
    "HOL-Library.Char_ord"
    "HOL-Library.List_Lexorder"
    "HOL-Library.Product_Lexorder"
    "HOL-Library.Multiset"
begin

section \<open>KARMIC: the favour marketplace of \<open>app.py\<close>\<close>

text \<open>
  The application is a set of Flask handlers over three SQLAlchemy tables. Each handler is
  embedded as a function from the request's inputs (the session cookie's \<open>user_id\<close>, the URL
  parameter, the form) and the database to a response and the database after the handler.
  Python's unbounded integers are \<open>int\<close>; primary keys are \<open>nat\<close> (the URL converter
  \<open>int:request_id\<close> accepts only non-negative numbers); strings are \<open>string\<close>.
\<close>

subsection \<open>Difficulty mapping and rank (lines 8-26)\<close>

definition XP_MAPPING :: "(string \<times> int) list" where
  "XP_MAPPING = [(''Easy'', 10), (''Medium'', 25), (''Hard'', 50)]"

text \<open>\<open>d.get(key, default)\<close> on a dictionary; the key read from a form may be \<open>None\<close>,
  which is a key of no entry.\<close>

definition dict_get :: "(string \<times> int) list \<Rightarrow> string option \<Rightarrow> int \<Rightarrow> int" where
  "dict_get d key dflt =
     (case key of
        None \<Rightarrow> dflt
      | Some k \<Rightarrow> (case map_of d k of None \<Rightarrow> dflt | Some v \<Rightarrow> v))"

definition get_karmic_rank :: "int \<Rightarrow> string" where
  "get_karmic_rank xp =
     (if xp \<ge> 500 then ''Karmic Master''
      else if xp \<ge> 200 then ''Community Elder''
      else if xp \<ge> 50 then ''Active Peer''
      else if xp \<ge> 10 then ''Helper Recruit''
      else ''Newbie'')"

subsection \<open>Tables (lines 40-76)\<close>

record user =
  u_id :: nat
  username :: string
  password_hash :: string
  coins :: int
  experience_points :: int

record request =
  r_id :: nat
  title :: string
  description :: string
  reward_coins :: int
  difficulty :: string
  xp_value :: int
  requester_id :: nat
  helper_id :: "nat option"
  status :: string
  r_timestamp :: nat

record message =
  m_id :: nat
  request_id :: nat
  sender_id :: nat
  content :: string
  m_timestamp :: nat

text \<open>The database: each table is the list of its rows, in insertion order.\<close>

record db =
  users :: "user list"
  requests :: "request list"
  messages :: "message list"

text \<open>\<open>db.session.get(Model, key)\<close>: the row with that primary key, or \<open>None\<close>.\<close>

definition get_user :: "db \<Rightarrow> nat \<Rightarrow> user option" where
  "get_user d k = find (\<lambda>u. u_id u = k) (users d)"

definition get_request :: "db \<Rightarrow> nat \<Rightarrow> request option" where
  "get_request d k = find (\<lambda>r. r_id r = k) (requests d)"

text \<open>Assigning to the attributes of an object obtained from the session and committing
  rewrites that one row: the first row the lookup finds.\<close>

fun update_row :: "('a \<Rightarrow> bool) \<Rightarrow> ('a \<Rightarrow> 'a) \<Rightarrow> 'a list \<Rightarrow> 'a list" where
  "update_row p f [] = []"
| "update_row p f (x # xs) = (if p x then f x # xs else x # update_row p f xs)"

text \<open>The primary key of an inserted row: SQLite gives an \<open>INTEGER PRIMARY KEY\<close> column
  one more than the largest key of the table (1 in an empty table).\<close>

definition next_id :: "nat list \<Rightarrow> nat" where
  "next_id ks = Suc (fold max ks 0)"

text \<open>\<open>get_current_user\<close> (lines 79-84). The session's \<open>user_id\<close> is a parameter; an absent
  or falsy (0) value gives \<open>None\<close>, and so does an id of no row.\<close>

definition get_current_user :: "nat option \<Rightarrow> db \<Rightarrow> user option" where
  "get_current_user sess d =
     (case sess of
        None \<Rightarrow> None
      | Some k \<Rightarrow> (if k \<noteq> 0 then get_user d k else None))"

subsection \<open>Responses\<close>

text \<open>An uncaught Python exception ends the handler; it is the response \<open>Raised\<close>.
  A \<open>flash\<close> followed by a \<open>redirect\<close> is a \<open>Redirect\<close> carrying the notice; the notices
  keep the values their format strings interpolate.\<close>

datatype exn = AttributeError | UnboundLocalError | IntegrityError

datatype page = Index | Login_signup | Create_request | Chat_view nat

datatype notice =
    Not_enough_coins int
  | Request_posted string int
  | No_longer_available
  | Cannot_accept_own
  | Task_accepted string
  | Confirm_rejected
  | Completion_confirmed
  | Approve_rejected
  | Approval_successful int int string
  | Cannot_send
  | Chat_not_authorized
  | View_not_authorized

datatype response =
    Redirect page "notice option"
  | Render_dashboard user "request list" "request list" string "user list"
  | Render_create_request user
  | Render_chat user request "message list" "user option"
  | Raised exn

datatype http_method = GET | POST

subsection \<open>Dashboard and leaderboard (lines 125-156)\<close>

text \<open>\<open>sorted(all_users, key=..., reverse=True)[:10]\<close>. Python's reverse sort is stable: rows
  with equal keys keep their original order, which is the stable ascending sort of the
  reversed list, reversed.\<close>

definition leaderboard_key :: "user \<Rightarrow> int \<times> int \<times> string" where
  "leaderboard_key u = (experience_points u, coins u, username u)"

definition sorted_reverse :: "('a \<Rightarrow> 'k::linorder) \<Rightarrow> 'a list \<Rightarrow> 'a list" where
  "sorted_reverse key xs = rev (sort_key key (rev xs))"

definition leaderboard :: "user list \<Rightarrow> user list" where
  "leaderboard all_users = take 10 (sorted_reverse leaderboard_key all_users)"

definition index :: "nat option \<Rightarrow> db \<Rightarrow> response \<times> db" where
  "index sess d =
     (case get_current_user sess d of
        None \<Rightarrow> (Redirect Login_signup None, d)
      | Some current_user \<Rightarrow>
          (let live_requests =
                 filter (\<lambda>r. status r = ''Live'' \<and> requester_id r \<noteq> u_id current_user)
                   (requests d);
               my_requests =
                 filter (\<lambda>r. requester_id r = u_id current_user
                              \<or> helper_id r = Some (u_id current_user))
                   (requests d);
               user_rank = get_karmic_rank (experience_points current_user)
           in (Render_dashboard current_user live_requests my_requests user_rank
                 (leaderboard (users d)), d)))"

subsection \<open>Creating a request (lines 159-196)\<close>

text \<open>The form fields are \<open>request.form.get(...)\<close>: \<open>None\<close> when the form has no such field.
  The row is built with the columns' defaults (\<open>helper_id\<close> null, \<open>status\<close> 'Live', the
  timestamp of the insertion, \<open>difficulty\<close> 'Medium' when none is given). \<open>title\<close> and
  \<open>description\<close> are \<open>nullable=False\<close> with no default: with either one \<open>None\<close> the commit
  raises IntegrityError and nothing is written.\<close>

definition create_request ::
  "http_method \<Rightarrow> nat option \<Rightarrow> string option \<Rightarrow> string option \<Rightarrow> string option
     \<Rightarrow> nat \<Rightarrow> db \<Rightarrow> response \<times> db" where
  "create_request meth sess f_title f_description f_difficulty now d =
     (case get_current_user sess d of
        None \<Rightarrow> (Redirect Login_signup None, d)
      | Some requester \<Rightarrow>
          if meth = POST then
            (let xp_reward = dict_get XP_MAPPING f_difficulty 10;
                 reward = xp_reward
             in if coins requester < reward
                then (Redirect Create_request (Some (Not_enough_coins reward)), d)
                else
                  (case (f_title, f_description) of
                     (Some t, Some ds) \<Rightarrow>
                       (let new_request =
                              \<lparr>r_id = next_id (map r_id (requests d)),
                               title = t,
                               description = ds,
                               reward_coins = reward,
                               difficulty =
                                 (case f_difficulty of None \<Rightarrow> ''Medium'' | Some l \<Rightarrow> l),
                               xp_value = xp_reward,
                               requester_id = u_id requester,
                               helper_id = None,
                               status = ''Live'',
                               r_timestamp = now\<rparr>
                        in (Redirect Index (Some (Request_posted t reward)),
                            d\<lparr>users :=
                                 update_row (\<lambda>u. u_id u = u_id requester)
                                   (\<lambda>u. u\<lparr>coins := coins u - reward\<rparr>) (users d),
                              requests := requests d @ [new_request]\<rparr>))
                   | _ \<Rightarrow> (Raised IntegrityError, d)))
          else (Render_create_request requester, d))"

subsection \<open>The lifecycle transitions (lines 199-260)\<close>

definition accept_task :: "nat option \<Rightarrow> nat \<Rightarrow> db \<Rightarrow> response \<times> db" where
  "accept_task sess rq_id d =
     (case get_request d rq_id of
        None \<Rightarrow> (Redirect Index (Some No_longer_available), d)
      | Some karmic_request \<Rightarrow>
          if status karmic_request \<noteq> ''Live''
          then (Redirect Index (Some No_longer_available), d)
          else
            (case get_current_user sess d of
               None \<Rightarrow> (Raised AttributeError, d)
             | Some helper \<Rightarrow>
                 if requester_id karmic_request = u_id helper
                 then (Redirect Index (Some Cannot_accept_own), d)
                 else
                   (Redirect Index (Some (Task_accepted (title karmic_request))),
                    d\<lparr>requests :=
                         update_row (\<lambda>r. r_id r = rq_id)
                           (\<lambda>r. r\<lparr>helper_id := Some (u_id helper), status := ''Accepted''\<rparr>)
                           (requests d)\<rparr>)))"

definition helper_confirm :: "nat option \<Rightarrow> nat \<Rightarrow> db \<Rightarrow> response \<times> db" where
  "helper_confirm sess rq_id d =
     (case get_request d rq_id of
        None \<Rightarrow> (Redirect Index (Some Confirm_rejected), d)
      | Some karmic_request \<Rightarrow>
          (case get_current_user sess d of
             None \<Rightarrow> (Raised AttributeError, d)
           | Some helper \<Rightarrow>
               if helper_id karmic_request \<noteq> Some (u_id helper)
                  \<or> status karmic_request \<noteq> ''Accepted''
               then (Redirect Index (Some Confirm_rejected), d)
               else
                 (Redirect Index (Some Completion_confirmed),
                  d\<lparr>requests :=
                       update_row (\<lambda>r. r_id r = rq_id)
                         (\<lambda>r. r\<lparr>status := ''Confirmed_By_Helper''\<rparr>) (requests d)\<rparr>)))"

text \<open>In \<open>requester_approve\<close> the variable \<open>new_rank\<close> is bound only inside \<open>if helper:\<close>; the
  final \<open>flash\<close> reads it after the commit, so with no helper row the status is already
  written when UnboundLocalError is raised. A null \<open>helper_id\<close> is the key of no row.\<close>

definition requester_approve :: "nat option \<Rightarrow> nat \<Rightarrow> db \<Rightarrow> response \<times> db" where
  "requester_approve sess rq_id d =
     (case get_request d rq_id of
        None \<Rightarrow> (Redirect Index (Some Approve_rejected), d)
      | Some karmic_request \<Rightarrow>
          (case get_current_user sess d of
             None \<Rightarrow> (Raised AttributeError, d)
           | Some requester \<Rightarrow>
               if requester_id karmic_request \<noteq> u_id requester
                  \<or> status karmic_request \<noteq> ''Confirmed_By_Helper''
               then (Redirect Index (Some Approve_rejected), d)
               else
                 (let helper =
                        (case helper_id karmic_request of
                           None \<Rightarrow> None
                         | Some h \<Rightarrow> get_user d h);
                      d1 =
                        (case helper of
                           None \<Rightarrow> d
                         | Some hu \<Rightarrow>
                             d\<lparr>users :=
                                  update_row (\<lambda>u. u_id u = u_id hu)
                                    (\<lambda>u. u\<lparr>coins := coins u + reward_coins karmic_request,
                                            experience_points :=
                                              experience_points u + xp_value karmic_request\<rparr>)
                                    (users d)\<rparr>);
                      d2 =
                        d1\<lparr>requests :=
                             update_row (\<lambda>r. r_id r = rq_id)
                               (\<lambda>r. r\<lparr>status := ''Completed''\<rparr>) (requests d1)\<rparr>
                  in (case helper of
                        None \<Rightarrow> (Raised UnboundLocalError, d2)
                      | Some hu \<Rightarrow>
                          (Redirect Index
                             (Some (Approval_successful (reward_coins karmic_request)
                                      (xp_value karmic_request)
                                      (get_karmic_rank
                                         (experience_points hu + xp_value karmic_request)))),
                           d2)))))"

subsection \<open>Chat (lines 265-315)\<close>

text \<open>\<open>order_by(Message.timestamp)\<close> is modelled by the stable sort on the timestamp (SQL
  leaves the order of equal timestamps open).\<close>

definition chat_view :: "nat option \<Rightarrow> nat \<Rightarrow> db \<Rightarrow> response \<times> db" where
  "chat_view sess rq_id d =
     (case get_request d rq_id of
        None \<Rightarrow> (Redirect Index (Some View_not_authorized), d)
      | Some karmic_request \<Rightarrow>
          (case get_current_user sess d of
             None \<Rightarrow> (Raised AttributeError, d)
           | Some current_user \<Rightarrow>
               if requester_id karmic_request \<noteq> u_id current_user
                  \<and> helper_id karmic_request \<noteq> Some (u_id current_user)
               then (Redirect Index (Some View_not_authorized), d)
               else
                 (let msgs =
                        sort_key m_timestamp
                          (filter (\<lambda>m. request_id m = rq_id) (messages d));
                      partner_id =
                        (if requester_id karmic_request = u_id current_user
                         then helper_id karmic_request
                         else Some (requester_id karmic_request));
                      partner =
                        (case partner_id of
                           None \<Rightarrow> None
                         | Some p \<Rightarrow> (if p \<noteq> 0 then get_user d p else None))
                  in (Render_chat current_user karmic_request msgs partner, d))))"

definition send_message ::
  "nat option \<Rightarrow> nat \<Rightarrow> string option \<Rightarrow> nat \<Rightarrow> db \<Rightarrow> response \<times> db" where
  "send_message sess rq_id f_content now d =
     (case (f_content, get_request d rq_id) of
        (Some (c # cs), Some karmic_request) \<Rightarrow>
          (case get_current_user sess d of
             None \<Rightarrow> (Raised AttributeError, d)
           | Some current_user \<Rightarrow>
               if requester_id karmic_request \<noteq> u_id current_user
                  \<and> helper_id karmic_request \<noteq> Some (u_id current_user)
               then (Redirect Index (Some Chat_not_authorized), d)
               else
                 (let new_message =
                        \<lparr>m_id = next_id (map m_id (messages d)),
                         request_id = rq_id,
                         sender_id = u_id current_user,
                         content = c # cs,
                         m_timestamp = now\<rparr>
                  in (Redirect (Chat_view rq_id) None,
                      d\<lparr>messages := messages d @ [new_message]\<rparr>)))
      | _ \<Rightarrow> (Redirect (Chat_view rq_id) (Some Cannot_send), d))"

subsection \<open>Reachable databases\<close>

text \<open>The database starts empty (\<open>initialize_app\<close> deletes the file and creates the tables).
  Rows of the user table are inserted by \<open>initialize_app\<close> and by registration, abstracted
  here as the insertion of any row; every other change is made by one of the handlers.\<close>

inductive reachable :: "db \<Rightarrow> bool" where
  r_empty: "reachable \<lparr>users = [], requests = [], messages = []\<rparr>"
| r_user: "reachable d \<Longrightarrow> reachable (d\<lparr>users := users d @ [u]\<rparr>)"
| r_create: "reachable d \<Longrightarrow> reachable (snd (create_request meth sess t ds df now d))"
| r_accept: "reachable d \<Longrightarrow> reachable (snd (accept_task sess k d))"
| r_confirm: "reachable d \<Longrightarrow> reachable (snd (helper_confirm sess k d))"
| r_approve: "reachable d \<Longrightarrow> reachable (snd (requester_approve sess k d))"
| r_send: "reachable d \<Longrightarrow> reachable (snd (send_message sess k c now d))"

text \<open>Coins in circulation: the balances of all users and the rewards of the requests that
  are not completed.\<close>

definition escrow :: "request \<Rightarrow> int" where
  "escrow r = (if status r \<noteq> ''Completed'' then reward_coins r else 0)"

definition total_coins :: "db \<Rightarrow> int" where
  "total_coins d =
     sum_list (map coins (users d))
     + sum_list (map reward_coins (filter (\<lambda>r. status r \<noteq> ''Completed'') (requests d)))"

text \<open>Every request that its helper has confirmed names a helper whose row exists.\<close>

definition helper_present :: "db \<Rightarrow> bool" where
  "helper_present d =
     list_all (\<lambda>r. status r = ''Confirmed_By_Helper'' \<longrightarrow>
                 (case helper_id r of None \<Rightarrow> False | Some h \<Rightarrow> get_user d h \<noteq> None))
       (requests d)"

text \<open>No handler removes a user row or changes its key.\<close>

definition keeps_users :: "db \<Rightarrow> db \<Rightarrow> bool" where
  "keeps_users d d' = (\<forall>h. get_user d h \<noteq> None \<longrightarrow> get_user d' h \<noteq> None)"

text \<open>A handler moved no request except from status \<open>a\<close> to status \<open>b\<close>: the table keeps its
  length, and each row is either the row it was or was in \<open>a\<close> and is now in \<open>b\<close>.\<close>

definition only_moves :: "string \<Rightarrow> string \<Rightarrow> db \<Rightarrow> db \<Rightarrow> bool" where
  "only_moves a b d d' =
     (length (requests d') = length (requests d) \<and>
      (\<forall>i < length (requests d).
         requests d' ! i = requests d ! i
         \<or> (status (requests d ! i) = a \<and> status (requests d' ! i) = b)))"

subsection \<open>A run of the lifecycle\<close>

text \<open>The two users \<open>initialize_app\<close> inserts, then the end-to-end run: RequesterA posts a
  Medium request, HelperB accepts and confirms it, RequesterA approves.\<close>

definition seed_db :: db where
  "seed_db =
     \<lparr>users =
        [\<lparr>u_id = 1, username = ''RequesterA'', password_hash = ''pw'', coins = 500,
          experience_points = 120\<rparr>,
         \<lparr>u_id = 2, username = ''HelperB'', password_hash = ''pw'', coins = 100,
          experience_points = 60\<rparr>],
      requests = [],
      messages = []\<rparr>"

definition live_db :: db where
  "live_db =
     snd (create_request POST (Some 1) (Some ''Notes'') (Some ''Lend me your notes'')
            (Some ''Medium'') 7 seed_db)"

definition accepted_db :: db where
  "accepted_db = snd (accept_task (Some 2) 1 live_db)"

definition confirmed_db :: db where
  "confirmed_db = snd (helper_confirm (Some 2) 1 accepted_db)"

definition completed_db :: db where
  "completed_db = snd (requester_approve (Some 1) 1 confirmed_db)"

text \<open>A user who cannot afford any reward.\<close>

definition thin_db :: db where
  "thin_db =
     \<lparr>users =
        [\<lparr>u_id = 1, username = ''Newcomer'', password_hash = ''pw'', coins = 5,
          experience_points = 0\<rparr>],
      requests = [],
      messages = []\<rparr>"

text \<open>A chat on the accepted request, the second message stamped earlier than the first; the
  same database with a user who takes no part in the request; the confirmed request after its
  helper's row has gone.\<close>

definition chat_db :: db where
  "chat_db =
     snd (send_message (Some 1) 1 (Some ''Thanks'') 9
            (snd (send_message (Some 2) 1 (Some ''On my way'') 12 accepted_db)))"

definition crowd_db :: db where
  "crowd_db =
     accepted_db\<lparr>users := users accepted_db @
       [\<lparr>u_id = 3, username = ''BystanderC'', password_hash = ''pw'', coins = 100,
         experience_points = 0\<rparr>]\<rparr>"

definition orphan_db :: db where
  "orphan_db = confirmed_db\<lparr>users := take 1 (users confirmed_db)\<rparr>"

text \<open>Four users whose experience, coins and names rank them differently.\<close>

definition mixed_db :: db where
  "mixed_db =
     \<lparr>users =
        [\<lparr>u_id = 1, username = ''novice'', password_hash = ''pw'', coins = 900,
          experience_points = 10\<rparr>,
         \<lparr>u_id = 2, username = ''ann'', password_hash = ''pw'', coins = 50,
          experience_points = 50\<rparr>,
         \<lparr>u_id = 3, username = ''bob'', password_hash = ''pw'', coins = 50,
          experience_points = 50\<rparr>,
         \<lparr>u_id = 4, username = ''veteran'', password_hash = ''pw'', coins = 5,
          experience_points = 300\<rparr>],
      requests = [],
      messages = []\<rparr>"

text \<open>The three users of the leaderboard example, and eleven users with rising experience.\<close>

definition spec_users :: "user list" where
  "spec_users =
     [\<lparr>u_id = 1, username = ''b'', password_hash = ''pw'', coins = 10, experience_points = 500\<rparr>,
      \<lparr>u_id = 2, username = ''a'', password_hash = ''pw'', coins = 20, experience_points = 500\<rparr>,
      \<lparr>u_id = 3, username = ''c'', password_hash = ''pw'', coins = 0, experience_points = 100\<rparr>]"

definition many_users :: "user list" where
  "many_users =
     map (\<lambda>n. \<lparr>u_id = n, username = replicate n (CHR ''u''), password_hash = ''pw'',
                coins = 100, experience_points = int n * 10\<rparr>) [1..<12]"

subsection \<open>Rows, lookups and updates\<close>

lemma length_update_row [simp]: "length (update_row p f xs) = length xs"
  by (induction xs) auto

lemma update_row_absent: "find p xs = None \<Longrightarrow> update_row p f xs = xs"
  by (induction xs) (auto split: if_splits)

lemma find_update_row:
  assumes "\<And>x. key (f x) = key x"
  shows "find (\<lambda>x. key x = k) (update_row (\<lambda>x. key x = j) f xs) =
         (if k = j then map_option f (find (\<lambda>x. key x = j) xs) else find (\<lambda>x. key x = k) xs)"
  using assms by (induction xs) auto

lemma map_key_update_row:
  assumes "\<And>x. key (f x) = key x"
  shows "map key (update_row p f xs) = map key xs"
  using assms by (induction xs) auto

lemma sum_list_update_row:
  fixes g :: "'a \<Rightarrow> int"
  shows "sum_list (map g (update_row p f xs)) =
         sum_list (map g xs) + (case find p xs of None \<Rightarrow> 0 | Some y \<Rightarrow> g (f y) - g y)"
  by (induction xs) auto

lemma nth_update_row:
  "i < length xs \<Longrightarrow> update_row p f xs ! i = xs ! i \<or> (p (xs ! i) \<and> update_row p f xs ! i = f (xs ! i))"
proof (induction xs arbitrary: i)
  case Nil
  then show ?case by simp
next
  case (Cons x xs)
  then show ?case by (cases i) auto
qed

lemma find_key_Some: "find (\<lambda>x. key x = k) xs = Some y \<Longrightarrow> key y = k \<and> y \<in> set xs"
  by (induction xs) (auto split: if_splits)



lemma in_set_update_row_first:
  "y \<in> set (update_row p f xs) \<Longrightarrow> y \<in> set xs \<or> (\<exists>x. find p xs = Some x \<and> y = f x)"
  by (induction xs) (auto split: if_splits)

lemma find_append_Some: "find p xs = Some y \<Longrightarrow> find p (xs @ ys) = Some y"
  by (induction xs) (auto split: if_splits)

lemma get_user_update_row:
  assumes "\<And>x. u_id (f x) = u_id x"
  shows "get_user (d\<lparr>users := update_row (\<lambda>u. u_id u = j) f (users d)\<rparr>) k =
         (if k = j then map_option f (get_user d j) else get_user d k)"
  unfolding get_user_def using find_update_row [of u_id f k j "users d"] assms by simp

lemma helper_present_step:
  assumes hp: "helper_present d"
    and ku: "keeps_users d d'"
    and rq: "\<And>r. r \<in> set (requests d') \<Longrightarrow> r \<in> set (requests d) \<or>
               status r \<noteq> ''Confirmed_By_Helper'' \<or>
               (\<exists>h. helper_id r = Some h \<and> get_user d h \<noteq> None)"
  shows "helper_present d'"
  unfolding helper_present_def list_all_iff
proof (intro ballI impI)
  fix r
  assume r: "r \<in> set (requests d')" and st: "status r = ''Confirmed_By_Helper''"
  from rq [OF r] st have "\<exists>h. helper_id r = Some h \<and> get_user d h \<noteq> None"
    using hp by (auto simp: helper_present_def list_all_iff split: option.splits)
  then obtain h where "helper_id r = Some h" "get_user d h \<noteq> None" by blast
  with ku show "case helper_id r of None \<Rightarrow> False | Some h \<Rightarrow> get_user d' h \<noteq> None"
    by (simp add: keeps_users_def)
qed

lemma keeps_users_refl: "keeps_users d d"
  by (simp add: keeps_users_def)

lemma keeps_users_update:
  assumes "\<And>x. u_id (f x) = u_id x"
  shows "keeps_users d (d\<lparr>users := update_row (\<lambda>u. u_id u = j) f (users d), requests := rs\<rparr>)"
  using find_update_row [of u_id f _ j "users d"] assms
  by (auto simp: keeps_users_def get_user_def)

lemma keeps_users_requests: "keeps_users d (d\<lparr>requests := rs\<rparr>)"
  by (simp add: keeps_users_def get_user_def)

lemma keeps_users_messages: "keeps_users d (d\<lparr>messages := ms\<rparr>)"
  by (simp add: keeps_users_def get_user_def)

lemma helper_present_create:
  assumes "helper_present d"
  shows "helper_present (snd (create_request meth sess t ds df now d))"
proof (rule helper_present_step [OF assms])
  show "keeps_users d (snd (create_request meth sess t ds df now d))"
    by (auto simp: create_request_def Let_def keeps_users_refl keeps_users_update
        split: option.splits)
next
  fix r assume "r \<in> set (requests (snd (create_request meth sess t ds df now d)))"
  then show "r \<in> set (requests d) \<or> status r \<noteq> ''Confirmed_By_Helper'' \<or>
             (\<exists>h. helper_id r = Some h \<and> get_user d h \<noteq> None)"
    by (auto simp: create_request_def Let_def split: option.splits if_splits)
qed

lemma helper_present_accept:
  assumes "helper_present d"
  shows "helper_present (snd (accept_task sess k d))"
proof (rule helper_present_step [OF assms])
  show "keeps_users d (snd (accept_task sess k d))"
    by (auto simp: accept_task_def keeps_users_refl keeps_users_requests split: option.splits)
next
  fix r assume "r \<in> set (requests (snd (accept_task sess k d)))"
  then show "r \<in> set (requests d) \<or> status r \<noteq> ''Confirmed_By_Helper'' \<or>
             (\<exists>h. helper_id r = Some h \<and> get_user d h \<noteq> None)"
    by (auto simp: accept_task_def split: option.splits if_splits
        dest!: in_set_update_row_first)
qed

lemma get_current_user_Some:
  "get_current_user sess d = Some u \<Longrightarrow> get_user d (u_id u) = Some u"
  by (auto simp: get_current_user_def get_user_def split: option.splits if_splits
      dest: find_key_Some [where key = u_id])

lemma helper_present_confirm:
  assumes "helper_present d"
  shows "helper_present (snd (helper_confirm sess k d))"
proof (rule helper_present_step [OF assms])
  show "keeps_users d (snd (helper_confirm sess k d))"
    by (auto simp: helper_confirm_def keeps_users_refl keeps_users_requests
        split: option.splits)
next
  fix r assume "r \<in> set (requests (snd (helper_confirm sess k d)))"
  then show "r \<in> set (requests d) \<or> status r \<noteq> ''Confirmed_By_Helper'' \<or>
             (\<exists>h. helper_id r = Some h \<and> get_user d h \<noteq> None)"
    by (auto simp: helper_confirm_def get_request_def split: option.splits if_splits
        dest!: in_set_update_row_first get_current_user_Some)
qed

lemma helper_present_approve:
  assumes "helper_present d"
  shows "helper_present (snd (requester_approve sess k d))"
proof (rule helper_present_step [OF assms])
  show "keeps_users d (snd (requester_approve sess k d))"
    by (auto simp: requester_approve_def Let_def keeps_users_refl keeps_users_requests
        keeps_users_update split: option.splits)
next
  fix r assume "r \<in> set (requests (snd (requester_approve sess k d)))"
  then show "r \<in> set (requests d) \<or> status r \<noteq> ''Confirmed_By_Helper'' \<or>
             (\<exists>h. helper_id r = Some h \<and> get_user d h \<noteq> None)"
    by (auto simp: requester_approve_def Let_def split: option.splits if_splits
        dest!: in_set_update_row_first)
qed

lemma helper_present_send:
  assumes "helper_present d"
  shows "helper_present (snd (send_message sess k c now d))"
proof (rule helper_present_step [OF assms])
  show "keeps_users d (snd (send_message sess k c now d))"
    by (auto simp: send_message_def Let_def keeps_users_refl keeps_users_messages
        split: option.splits list.splits)
next
  fix r assume "r \<in> set (requests (snd (send_message sess k c now d)))"
  then show "r \<in> set (requests d) \<or> status r \<noteq> ''Confirmed_By_Helper'' \<or>
             (\<exists>h. helper_id r = Some h \<and> get_user d h \<noteq> None)"
    by (auto simp: send_message_def Let_def split: option.splits list.splits if_splits)
qed

lemma helper_present_user:
  assumes "helper_present d"
  shows "helper_present (d\<lparr>users := users d @ [u]\<rparr>)"
proof (rule helper_present_step [OF assms])
  show "keeps_users d (d\<lparr>users := users d @ [u]\<rparr>)"
    by (auto simp: keeps_users_def get_user_def find_append_Some)
qed simp

lemma reachable_helper_present: "reachable d \<Longrightarrow> helper_present d"
proof (induction rule: reachable.induct)
  case r_empty
  show ?case by (simp add: helper_present_def)
qed (simp_all add: helper_present_user helper_present_create helper_present_accept
       helper_present_confirm helper_present_approve helper_present_send)

lemma nth_update_row_first:
  "i < length xs \<Longrightarrow>
     update_row p f xs ! i = xs ! i
     \<or> (find p xs = Some (xs ! i) \<and> update_row p f xs ! i = f (xs ! i))"
proof (induction xs arbitrary: i)
  case Nil
  then show ?case by simp
next
  case (Cons x xs)
  then show ?case by (cases i) auto
qed

lemma get_request_update_row:
  assumes "\<And>x. r_id (f x) = r_id x"
  shows "find (\<lambda>x. r_id x = k) (update_row (\<lambda>x. r_id x = k) f rs) =
         map_option f (find (\<lambda>x. r_id x = k) rs)"
  using find_update_row [of r_id f k k rs] assms by simp

lemma only_moves_refl: "only_moves a b d d"
  by (simp add: only_moves_def)

lemma only_moves_update_row:
  assumes "requests d' = update_row p f (requests d)"
    and "\<And>x. find p (requests d) = Some x \<Longrightarrow> status x = a \<and> status (f x) = b"
  shows "only_moves a b d d'"
  unfolding only_moves_def
proof (intro conjI allI impI)
  show "length (requests d') = length (requests d)"
    using assms(1) by simp
next
  fix i assume "i < length (requests d)"
  from nth_update_row_first [OF this, of p f] assms
  show "requests d' ! i = requests d ! i
        \<or> (status (requests d ! i) = a \<and> status (requests d' ! i) = b)"
    by auto
qed

lemma accept_moves: "only_moves ''Live'' ''Accepted'' d (snd (accept_task sess k d))"
  by (auto simp: accept_task_def get_request_def only_moves_refl
      split: option.splits intro!: only_moves_update_row)

lemma confirm_moves:
  "only_moves ''Accepted'' ''Confirmed_By_Helper'' d (snd (helper_confirm sess k d))"
  by (auto simp: helper_confirm_def get_request_def only_moves_refl
      split: option.splits intro!: only_moves_update_row)

lemma approve_moves:
  "only_moves ''Confirmed_By_Helper'' ''Completed'' d (snd (requester_approve sess k d))"
  by (auto simp: requester_approve_def get_request_def only_moves_refl Let_def
      split: option.splits intro!: only_moves_update_row)

lemma reachable_seed_db: "reachable seed_db"
  using r_user [OF r_user [OF r_empty]] by (simp add: seed_db_def)

lemma reachable_live_db: "reachable live_db"
  unfolding live_db_def by (rule r_create [OF reachable_seed_db])

lemma reachable_accepted_db: "reachable accepted_db"
  unfolding accepted_db_def by (rule r_accept [OF reachable_live_db])

lemma reachable_confirmed_db: "reachable confirmed_db"
  unfolding confirmed_db_def by (rule r_confirm [OF reachable_accepted_db])

lemma live_db_eq:
  "live_db =
     \<lparr>users =
        [\<lparr>u_id = 1, username = ''RequesterA'', password_hash = ''pw'', coins = 475,
          experience_points = 120\<rparr>,
         \<lparr>u_id = 2, username = ''HelperB'', password_hash = ''pw'', coins = 100,
          experience_points = 60\<rparr>],
      requests =
        [\<lparr>r_id = 1, title = ''Notes'', description = ''Lend me your notes'',
          reward_coins = 25, difficulty = ''Medium'', xp_value = 25, requester_id = 1,
          helper_id = None, status = ''Live'', r_timestamp = 7\<rparr>],
      messages = []\<rparr>"
  by (simp add: live_db_def seed_db_def create_request_def get_current_user_def get_user_def
      dict_get_def XP_MAPPING_def next_id_def)

lemma accepted_db_eq:
  "accepted_db =
     \<lparr>users =
        [\<lparr>u_id = 1, username = ''RequesterA'', password_hash = ''pw'', coins = 475,
          experience_points = 120\<rparr>,
         \<lparr>u_id = 2, username = ''HelperB'', password_hash = ''pw'', coins = 100,
          experience_points = 60\<rparr>],
      requests =
        [\<lparr>r_id = 1, title = ''Notes'', description = ''Lend me your notes'',
          reward_coins = 25, difficulty = ''Medium'', xp_value = 25, requester_id = 1,
          helper_id = Some 2, status = ''Accepted'', r_timestamp = 7\<rparr>],
      messages = []\<rparr>"
  by (simp add: accepted_db_def live_db_eq accept_task_def get_current_user_def get_user_def
      get_request_def)

lemma confirmed_db_eq:
  "confirmed_db =
     \<lparr>users =
        [\<lparr>u_id = 1, username = ''RequesterA'', password_hash = ''pw'', coins = 475,
          experience_points = 120\<rparr>,
         \<lparr>u_id = 2, username = ''HelperB'', password_hash = ''pw'', coins = 100,
          experience_points = 60\<rparr>],
      requests =
        [\<lparr>r_id = 1, title = ''Notes'', description = ''Lend me your notes'',
          reward_coins = 25, difficulty = ''Medium'', xp_value = 25, requester_id = 1,
          helper_id = Some 2, status = ''Confirmed_By_Helper'', r_timestamp = 7\<rparr>],
      messages = []\<rparr>"
  by (simp add: confirmed_db_def accepted_db_eq helper_confirm_def get_current_user_def
      get_user_def get_request_def)

lemma completed_db_eq:
  "completed_db =
     \<lparr>users =
        [\<lparr>u_id = 1, username = ''RequesterA'', password_hash = ''pw'', coins = 475,
          experience_points = 120\<rparr>,
         \<lparr>u_id = 2, username = ''HelperB'', password_hash = ''pw'', coins = 125,
          experience_points = 85\<rparr>],
      requests =
        [\<lparr>r_id = 1, title = ''Notes'', description = ''Lend me your notes'',
          reward_coins = 25, difficulty = ''Medium'', xp_value = 25, requester_id = 1,
          helper_id = Some 2, status = ''Completed'', r_timestamp = 7\<rparr>],
      messages = []\<rparr>"
  by (simp add: completed_db_def confirmed_db_eq requester_approve_def get_current_user_def
      get_user_def get_request_def)

lemma get_current_user_find:
  "get_current_user sess d = Some u \<Longrightarrow> find (\<lambda>x. u_id x = u_id u) (users d) = Some u"
  using get_current_user_Some [of sess d u] by (simp add: get_user_def)

lemma get_request_find:
  "get_request d k = Some r \<Longrightarrow> find (\<lambda>x. r_id x = k) (requests d) = Some r"
  by (simp add: get_request_def)

lemma escrow_sum:
  "sum_list (map reward_coins (filter (\<lambda>r. status r \<noteq> ''Completed'') rs))
   = sum_list (map escrow rs)"
  by (induction rs) (auto simp: escrow_def)

lemma total_coins_escrow:
  "total_coins d = sum_list (map coins (users d)) + sum_list (map escrow (requests d))"
  by (simp add: total_coins_def escrow_sum)

lemma total_create: "total_coins (snd (create_request meth sess ft fd df now d)) = total_coins d"
proof (cases "get_current_user sess d")
  case None
  then show ?thesis by (simp add: create_request_def)
next
  case (Some u)
  show ?thesis
    using Some get_current_user_find [OF Some]
      sum_list_update_row [of coins "\<lambda>x. u_id x = u_id u"
        "\<lambda>x. x\<lparr>coins := coins x - dict_get XP_MAPPING df 10\<rparr>" "users d"]
    by (auto simp: create_request_def Let_def total_coins_escrow escrow_def
        split: option.splits)
qed

lemma total_accept: "total_coins (snd (accept_task sess k d)) = total_coins d"
  by (auto simp: accept_task_def total_coins_escrow sum_list_update_row escrow_def
      get_request_def split: option.splits)

lemma total_confirm: "total_coins (snd (helper_confirm sess k d)) = total_coins d"
  by (auto simp: helper_confirm_def total_coins_escrow sum_list_update_row escrow_def
      get_request_def split: option.splits)

lemma total_approve:
  assumes "helper_present d"
  shows "total_coins (snd (requester_approve sess k d)) = total_coins d"
proof (cases "get_request d k")
  case None
  then show ?thesis by (simp add: requester_approve_def)
next
  case (Some r)
  note r = this
  show ?thesis
  proof (cases "get_current_user sess d")
    case None
    then show ?thesis using r by (simp add: requester_approve_def)
  next
    case (Some u)
    show ?thesis
    proof (cases "requester_id r \<noteq> u_id u \<or> status r \<noteq> ''Confirmed_By_Helper''")
      case True
      then show ?thesis using r Some by (auto simp: requester_approve_def)
    next
      case False
      from r have "r \<in> set (requests d)"
        by (auto simp: get_request_def dest: find_key_Some [where key = r_id])
      with assms False obtain h hu where h: "helper_id r = Some h" "get_user d h = Some hu"
        by (auto simp: helper_present_def list_all_iff split: option.splits)
      then have hid: "u_id hu = h" and hf: "find (\<lambda>x. u_id x = h) (users d) = Some hu"
        by (auto simp: get_user_def dest: find_key_Some [where key = u_id])
      show ?thesis
        using r Some False h hid hf get_request_find [OF r]
        by (simp add: requester_approve_def total_coins_escrow sum_list_update_row escrow_def)
    qed
  qed
qed

lemma sorted_reverse_mset: "mset (sorted_reverse key xs) = mset xs"
  by (simp add: sorted_reverse_def)

lemma sorted_reverse_desc:
  "sorted_wrt (\<lambda>a b. key a \<ge> key b) (sorted_reverse key xs)"
proof -
  have "sorted (map key (sort_key key (rev xs)))"
    by simp
  then have "sorted_wrt (\<lambda>a b. key a \<le> key b) (sort_key key (rev xs))"
    by (simp add: sorted_map)
  then show ?thesis
    by (simp add: sorted_reverse_def sorted_wrt_rev)
qed

lemma many_users_eq: "map u_id (leaderboard many_users) = [11, 10, 9, 8, 7, 6, 5, 4, 3, 2]"
  by code_simp

lemma chat_db_eq:
  "chat_db = accepted_db\<lparr>messages :=
       [\<lparr>m_id = 1, request_id = 1, sender_id = 2, content = ''On my way'', m_timestamp = 12\<rparr>,
        \<lparr>m_id = 2, request_id = 1, sender_id = 1, content = ''Thanks'', m_timestamp = 9\<rparr>]\<rparr>"
  by (simp add: chat_db_def accepted_db_eq send_message_def get_request_def
      get_current_user_def get_user_def next_id_def)

lemma leaderboard_key_le:
  "leaderboard_key b \<le> leaderboard_key a \<longleftrightarrow>
     experience_points b < experience_points a
     \<or> (experience_points b = experience_points a
        \<and> (coins b < coins a \<or> (coins b = coins a \<and> username b \<le> username a)))"
  by (auto simp: leaderboard_key_def)

lemma index_renders_leaderboard:
  "get_current_user sess d = Some cu \<Longrightarrow>
   \<exists>live mine rank. index sess d = (Render_dashboard cu live mine rank (leaderboard (users d)), d)"
  by (simp add: index_def Let_def)

subsection \<open>Theorems\<close>

text \<open>
  C9. The rank is a function of the experience points alone and returns Newbie for 0-9,
  Helper Recruit for 10-49, Active Peer for 50-199, Community Elder for 200-499 and
  Karmic Master from 500 on.
\<close>

theorem get_karmic_rank_bands:
  "(0 \<le> xp \<and> xp \<le> 9 \<longrightarrow> get_karmic_rank xp = ''Newbie'') \<and>
   (10 \<le> xp \<and> xp \<le> 49 \<longrightarrow> get_karmic_rank xp = ''Helper Recruit'') \<and>
   (50 \<le> xp \<and> xp \<le> 199 \<longrightarrow> get_karmic_rank xp = ''Active Peer'') \<and>
   (200 \<le> xp \<and> xp \<le> 499 \<longrightarrow> get_karmic_rank xp = ''Community Elder'') \<and>
   (500 \<le> xp \<longrightarrow> get_karmic_rank xp = ''Karmic Master'')"
  by (simp add: get_karmic_rank_def)

theorem get_karmic_rank_bands_witness:
  "get_karmic_rank 0 = ''Newbie'' \<and> get_karmic_rank 9 = ''Newbie'' \<and>
   get_karmic_rank 10 = ''Helper Recruit'' \<and> get_karmic_rank 49 = ''Helper Recruit'' \<and>
   get_karmic_rank 50 = ''Active Peer'' \<and> get_karmic_rank 199 = ''Active Peer'' \<and>
   get_karmic_rank 200 = ''Community Elder'' \<and> get_karmic_rank 499 = ''Community Elder'' \<and>
   get_karmic_rank 500 = ''Karmic Master''"
  using get_karmic_rank_bands [of 0] get_karmic_rank_bands [of 9]
    get_karmic_rank_bands [of 10] get_karmic_rank_bands [of 49]
    get_karmic_rank_bands [of 50] get_karmic_rank_bands [of 199]
    get_karmic_rank_bands [of 200] get_karmic_rank_bands [of 499]
    get_karmic_rank_bands [of 500]
  by simp

text \<open>
  C1. In a reachable database, when the request is in Confirmed_By_Helper and the acting
  user is its requester, \<open>requester_approve\<close> succeeds: the request becomes Completed, the
  assigned helper's row exists and gains exactly \<open>reward_coins\<close> coins and \<open>xp_value\<close>
  experience points, no other user is changed, and the totals of the user table grow by
  exactly these amounts. Approving again is rejected and changes nothing, whoever asks.
\<close>

theorem requester_approve_settles:
  assumes "reachable d"
    and "get_request d k = Some r" and "status r = ''Confirmed_By_Helper''"
    and "get_current_user sess d = Some u" and "requester_id r = u_id u"
  shows "\<exists>h hu d'.
           helper_id r = Some h \<and> get_user d h = Some hu \<and>
           requester_approve sess k d =
             (Redirect Index
                (Some (Approval_successful (reward_coins r) (xp_value r)
                         (get_karmic_rank (experience_points hu + xp_value r)))), d') \<and>
           get_request d' k = Some (r\<lparr>status := ''Completed''\<rparr>) \<and>
           get_user d' h =
             Some (hu\<lparr>coins := coins hu + reward_coins r,
                      experience_points := experience_points hu + xp_value r\<rparr>) \<and>
           (\<forall>j. j \<noteq> h \<longrightarrow> get_user d' j = get_user d j) \<and>
           sum_list (map coins (users d')) = sum_list (map coins (users d)) + reward_coins r \<and>
           sum_list (map experience_points (users d'))
             = sum_list (map experience_points (users d)) + xp_value r \<and>
           requester_approve sess k d' = (Redirect Index (Some Approve_rejected), d') \<and>
           (\<forall>sess'. snd (requester_approve sess' k d') = d')"
proof -
  from assms(2) have rin: "r \<in> set (requests d)"
    by (auto simp: get_request_def dest: find_key_Some [where key = r_id])
  with reachable_helper_present [OF assms(1)] assms(3)
  obtain h hu where h: "helper_id r = Some h" and hu: "get_user d h = Some hu"
    by (auto simp: helper_present_def list_all_iff split: option.splits)
  from hu have hid: "u_id hu = h"
    by (auto simp: get_user_def dest: find_key_Some [where key = u_id])
  let ?f = "\<lambda>u. u\<lparr>coins := coins u + reward_coins r,
                 experience_points := experience_points u + xp_value r\<rparr>"
  let ?g = "\<lambda>x. x\<lparr>status := ''Completed''\<rparr>"
  define d' where "d' = d\<lparr>users := update_row (\<lambda>u. u_id u = h) ?f (users d),
                          requests := update_row (\<lambda>x. r_id x = k) ?g (requests d)\<rparr>"
  have run: "requester_approve sess k d =
             (Redirect Index
                (Some (Approval_successful (reward_coins r) (xp_value r)
                         (get_karmic_rank (experience_points hu + xp_value r)))), d')"
    using assms h hu hid by (simp add: requester_approve_def d'_def)
  have rq': "get_request d' k = Some (r\<lparr>status := ''Completed''\<rparr>)"
    using assms(2) by (simp add: d'_def get_request_def get_request_update_row)
  have gu: "get_user d' j = (if j = h then map_option ?f (get_user d h) else get_user d j)" for j
    using find_update_row [of u_id ?f j h "users d"]
    by (simp add: d'_def get_user_def)
  have coins': "sum_list (map coins (users d')) = sum_list (map coins (users d)) + reward_coins r"
    using hu sum_list_update_row [of coins "\<lambda>u. u_id u = h" ?f "users d"]
    by (simp add: d'_def get_user_def)
  have xp': "sum_list (map experience_points (users d'))
             = sum_list (map experience_points (users d)) + xp_value r"
    using hu sum_list_update_row [of experience_points "\<lambda>u. u_id u = h" ?f "users d"]
    by (simp add: d'_def get_user_def)
  have again: "snd (requester_approve sess' k d') = d'" for sess'
    using rq' by (simp add: requester_approve_def split: option.splits)
  have "get_current_user sess d' \<noteq> None"
    using assms(4) hu by (auto simp: gu get_current_user_def split: option.splits if_splits)
  then obtain u' where "get_current_user sess d' = Some u'"
    by blast
  then have rej: "requester_approve sess k d' = (Redirect Index (Some Approve_rejected), d')"
    using rq' by (simp add: requester_approve_def)
  show ?thesis
    using h hu run rq' gu coins' xp' again rej by auto
qed

theorem requester_approve_settles_witness:
  "reachable confirmed_db \<and>
   requester_approve (Some 1) 1 confirmed_db
     = (Redirect Index (Some (Approval_successful 25 25 ''Active Peer'')), completed_db) \<and>
   map_option status (get_request completed_db 1) = Some ''Completed'' \<and>
   map_option coins (get_user confirmed_db 2) = Some 100 \<and>
   map_option coins (get_user completed_db 2) = Some 125 \<and>
   map_option experience_points (get_user confirmed_db 2) = Some 60 \<and>
   map_option experience_points (get_user completed_db 2) = Some 85 \<and>
   requester_approve (Some 1) 1 completed_db
     = (Redirect Index (Some Approve_rejected), completed_db)"
proof -
  let ?r = "\<lparr>r_id = 1, title = ''Notes'', description = ''Lend me your notes'',
          reward_coins = 25, difficulty = ''Medium'', xp_value = 25, requester_id = 1,
          helper_id = Some 2, status = ''Confirmed_By_Helper'', r_timestamp = 7\<rparr>"
  let ?u = "\<lparr>u_id = 1, username = ''RequesterA'', password_hash = ''pw'', coins = 475,
          experience_points = 120\<rparr>"
  have 1: "get_request confirmed_db 1 = Some ?r"
    by (simp add: confirmed_db_eq get_request_def)
  have 2: "status ?r = ''Confirmed_By_Helper''" by simp
  have 3: "get_current_user (Some 1) confirmed_db = Some ?u"
    by (simp add: confirmed_db_eq get_current_user_def get_user_def)
  have 4: "requester_id ?r = u_id ?u" by simp
  from requester_approve_settles [OF reachable_confirmed_db 1 2 3 4]
  obtain h hu d' where h: "helper_id ?r = Some h"
    and hu: "get_user confirmed_db h = Some hu"
    and run: "requester_approve (Some 1) 1 confirmed_db =
             (Redirect Index
                (Some (Approval_successful (reward_coins ?r) (xp_value ?r)
                         (get_karmic_rank (experience_points hu + xp_value ?r)))), d')"
    and rq: "get_request d' 1 = Some (?r\<lparr>status := ''Completed''\<rparr>)"
    and paid: "get_user d' h =
             Some (hu\<lparr>coins := coins hu + reward_coins ?r,
                      experience_points := experience_points hu + xp_value ?r\<rparr>)"
    and again: "requester_approve (Some 1) 1 d' = (Redirect Index (Some Approve_rejected), d')"
    by blast
  from h have h2: "h = 2" by simp
  from hu have hu2: "hu = \<lparr>u_id = 2, username = ''HelperB'', password_hash = ''pw'',
                          coins = 100, experience_points = 60\<rparr>"
    by (simp add: h2 confirmed_db_eq get_user_def)
  from run have d': "d' = completed_db"
    by (simp add: completed_db_def)
  have "map_option coins (get_user confirmed_db 2) = Some 100"
    and "map_option experience_points (get_user confirmed_db 2) = Some 60"
    using hu by (simp_all add: h2 hu2)
  moreover have "map_option coins (get_user completed_db 2) = Some 125"
    and "map_option experience_points (get_user completed_db 2) = Some 85"
    using paid by (simp_all add: h2 hu2 d')
  moreover have "map_option status (get_request completed_db 1) = Some ''Completed''"
    using rq by (simp add: d')
  moreover have "requester_approve (Some 1) 1 confirmed_db
     = (Redirect Index (Some (Approval_successful 25 25 ''Active Peer'')), completed_db)"
    using run by (simp add: d' hu2 get_karmic_rank_def)
  ultimately show ?thesis
    using reachable_confirmed_db again by (simp add: d')
qed

text \<open>
  C3. The status only moves forward: \<open>accept_task\<close> changes rows only from Live to Accepted,
  \<open>helper_confirm\<close> only from Accepted to Confirmed_By_Helper, \<open>requester_approve\<close> only from
  Confirmed_By_Helper to Completed; called on a request in any other status each of them
  fails and leaves the whole database as it was.
\<close>

theorem status_forward:
  "only_moves ''Live'' ''Accepted'' d (snd (accept_task sess k d)) \<and>
   only_moves ''Accepted'' ''Confirmed_By_Helper'' d (snd (helper_confirm sess k d)) \<and>
   only_moves ''Confirmed_By_Helper'' ''Completed'' d (snd (requester_approve sess k d)) \<and>
   (\<forall>r. get_request d k = Some r \<and> status r \<noteq> ''Live'' \<longrightarrow>
      accept_task sess k d = (Redirect Index (Some No_longer_available), d)) \<and>
   (\<forall>r. get_request d k = Some r \<and> status r \<noteq> ''Accepted'' \<longrightarrow>
      snd (helper_confirm sess k d) = d \<and>
      fst (helper_confirm sess k d) \<in> {Redirect Index (Some Confirm_rejected), Raised AttributeError}) \<and>
   (\<forall>r. get_request d k = Some r \<and> status r \<noteq> ''Confirmed_By_Helper'' \<longrightarrow>
      snd (requester_approve sess k d) = d \<and>
      fst (requester_approve sess k d) \<in> {Redirect Index (Some Approve_rejected), Raised AttributeError})"
proof (intro conjI allI impI)
  show "only_moves ''Live'' ''Accepted'' d (snd (accept_task sess k d))"
    by (rule accept_moves)
  show "only_moves ''Accepted'' ''Confirmed_By_Helper'' d (snd (helper_confirm sess k d))"
    by (rule confirm_moves)
  show "only_moves ''Confirmed_By_Helper'' ''Completed'' d (snd (requester_approve sess k d))"
    by (rule approve_moves)
next
  fix r assume "get_request d k = Some r \<and> status r \<noteq> ''Live''"
  then show "accept_task sess k d = (Redirect Index (Some No_longer_available), d)"
    by (simp add: accept_task_def)
next
  fix r assume a: "get_request d k = Some r \<and> status r \<noteq> ''Accepted''"
  then show "snd (helper_confirm sess k d) = d"
    by (simp add: helper_confirm_def split: option.splits)
  from a show "fst (helper_confirm sess k d)
               \<in> {Redirect Index (Some Confirm_rejected), Raised AttributeError}"
    by (simp add: helper_confirm_def split: option.splits)
next
  fix r assume a: "get_request d k = Some r \<and> status r \<noteq> ''Confirmed_By_Helper''"
  then show "snd (requester_approve sess k d) = d"
    by (simp add: requester_approve_def split: option.splits)
  from a show "fst (requester_approve sess k d)
               \<in> {Redirect Index (Some Approve_rejected), Raised AttributeError}"
    by (simp add: requester_approve_def split: option.splits)
qed

theorem status_forward_witness:
  "only_moves ''Live'' ''Accepted'' live_db accepted_db \<and>
   map status (requests live_db) = [''Live''] \<and>
   map status (requests accepted_db) = [''Accepted''] \<and>
   only_moves ''Accepted'' ''Confirmed_By_Helper'' accepted_db confirmed_db \<and>
   map status (requests confirmed_db) = [''Confirmed_By_Helper''] \<and>
   only_moves ''Confirmed_By_Helper'' ''Completed'' confirmed_db completed_db \<and>
   map status (requests completed_db) = [''Completed''] \<and>
   accept_task (Some 2) 1 accepted_db = (Redirect Index (Some No_longer_available), accepted_db) \<and>
   snd (helper_confirm (Some 2) 1 confirmed_db) = confirmed_db \<and>
   snd (requester_approve (Some 1) 1 accepted_db) = accepted_db \<and>
   fst (requester_approve (Some 1) 1 accepted_db) = Redirect Index (Some Approve_rejected)"
proof -
  note a = status_forward [of live_db "Some 2" 1, folded accepted_db_def]
  note b = status_forward [of accepted_db "Some 2" 1, folded confirmed_db_def]
  note c = status_forward [of confirmed_db "Some 1" 1, folded completed_db_def]
  note e = status_forward [of accepted_db "Some 1" 1]
  have 1: "get_request accepted_db 1 = Some (hd (requests accepted_db))"
    "get_request confirmed_db 1 = Some (hd (requests confirmed_db))"
    by (simp_all add: accepted_db_eq confirmed_db_eq get_request_def)
  have 2: "status (hd (requests accepted_db)) = ''Accepted''"
    "status (hd (requests confirmed_db)) = ''Confirmed_By_Helper''"
    by (simp_all add: accepted_db_eq confirmed_db_eq)
  have "only_moves ''Live'' ''Accepted'' live_db accepted_db"
    and "only_moves ''Accepted'' ''Confirmed_By_Helper'' accepted_db confirmed_db"
    and "only_moves ''Confirmed_By_Helper'' ''Completed'' confirmed_db completed_db"
    using a b c by blast+
  moreover have "accept_task (Some 2) 1 accepted_db
                 = (Redirect Index (Some No_longer_available), accepted_db)"
    using b 1 2 by simp
  moreover have "snd (helper_confirm (Some 2) 1 confirmed_db) = confirmed_db"
    using status_forward [of confirmed_db "Some 2" 1] 1 2 by simp
  moreover have "snd (requester_approve (Some 1) 1 accepted_db) = accepted_db"
    using e 1 2 by simp
  moreover have "fst (requester_approve (Some 1) 1 accepted_db)
                 = Redirect Index (Some Approve_rejected)"
    by (simp add: accepted_db_eq requester_approve_def get_request_def get_current_user_def
        get_user_def)
  ultimately show ?thesis
    by (simp add: live_db_eq accepted_db_eq confirmed_db_eq completed_db_eq)
qed

text \<open>
  C6. For a resolved acting user, \<open>accept_task\<close> succeeds exactly when the request exists, is
  Live and is not the actor's own; on success the actor is the helper and the status is
  Accepted; accepting one's own request never succeeds; whenever the call does not succeed
  the database is unchanged.
\<close>

theorem accept_task_iff:
  "(\<forall>u. get_current_user sess d = Some u \<longrightarrow>
      ((\<exists>t. fst (accept_task sess k d) = Redirect Index (Some (Task_accepted t)))
         \<longleftrightarrow> (\<exists>r. get_request d k = Some r \<and> status r = ''Live''
                    \<and> requester_id r \<noteq> u_id u)) \<and>
      (\<forall>r. get_request d k = Some r \<and> status r = ''Live'' \<and> requester_id r \<noteq> u_id u \<longrightarrow>
         fst (accept_task sess k d) = Redirect Index (Some (Task_accepted (title r))) \<and>
         get_request (snd (accept_task sess k d)) k
           = Some (r\<lparr>helper_id := Some (u_id u), status := ''Accepted''\<rparr>)) \<and>
      (\<forall>r. get_request d k = Some r \<and> requester_id r = u_id u \<longrightarrow>
         (\<nexists>t. fst (accept_task sess k d) = Redirect Index (Some (Task_accepted t))))) \<and>
   ((\<nexists>t. fst (accept_task sess k d) = Redirect Index (Some (Task_accepted t))) \<longrightarrow>
      snd (accept_task sess k d) = d)"
proof (intro conjI allI impI)
  fix u assume u: "get_current_user sess d = Some u"
  show "(\<exists>t. fst (accept_task sess k d) = Redirect Index (Some (Task_accepted t)))
         \<longleftrightarrow> (\<exists>r. get_request d k = Some r \<and> status r = ''Live''
                    \<and> requester_id r \<noteq> u_id u)"
    using u by (auto simp: accept_task_def split: option.splits)
next
  fix u r
  assume u: "get_current_user sess d = Some u"
    and r: "get_request d k = Some r \<and> status r = ''Live'' \<and> requester_id r \<noteq> u_id u"
  show "fst (accept_task sess k d) = Redirect Index (Some (Task_accepted (title r)))"
    using u r by (simp add: accept_task_def)
  show "get_request (snd (accept_task sess k d)) k
          = Some (r\<lparr>helper_id := Some (u_id u), status := ''Accepted''\<rparr>)"
    using u r by (simp add: accept_task_def get_request_def get_request_update_row)
next
  fix u r
  assume u: "get_current_user sess d = Some u"
    and r: "get_request d k = Some r \<and> requester_id r = u_id u"
  show "\<nexists>t. fst (accept_task sess k d) = Redirect Index (Some (Task_accepted t))"
    using u r by (simp add: accept_task_def)
next
  assume "\<nexists>t. fst (accept_task sess k d) = Redirect Index (Some (Task_accepted t))"
  then show "snd (accept_task sess k d) = d"
    by (auto simp: accept_task_def split: option.splits if_splits)
qed

theorem accept_task_iff_witness:
  "get_current_user (Some 2) live_db \<noteq> None \<and>
   fst (accept_task (Some 2) 1 live_db) = Redirect Index (Some (Task_accepted ''Notes'')) \<and>
   map_option helper_id (get_request (snd (accept_task (Some 2) 1 live_db)) 1) = Some (Some 2) \<and>
   map_option status (get_request (snd (accept_task (Some 2) 1 live_db)) 1) = Some ''Accepted'' \<and>
   get_current_user (Some 1) live_db \<noteq> None \<and>
   (\<nexists>t. fst (accept_task (Some 1) 1 live_db) = Redirect Index (Some (Task_accepted t))) \<and>
   snd (accept_task (Some 1) 1 live_db) = live_db"
proof -
  let ?r = "\<lparr>r_id = 1, title = ''Notes'', description = ''Lend me your notes'',
          reward_coins = 25, difficulty = ''Medium'', xp_value = 25, requester_id = 1,
          helper_id = None, status = ''Live'', r_timestamp = 7\<rparr>"
  let ?a = "\<lparr>u_id = 1, username = ''RequesterA'', password_hash = ''pw'', coins = 475,
          experience_points = 120\<rparr>"
  let ?b = "\<lparr>u_id = 2, username = ''HelperB'', password_hash = ''pw'', coins = 100,
          experience_points = 60\<rparr>"
  have r: "get_request live_db 1 = Some ?r"
    by (simp add: live_db_eq get_request_def)
  have ua: "get_current_user (Some 1) live_db = Some ?a"
    and ub: "get_current_user (Some 2) live_db = Some ?b"
    by (simp_all add: live_db_eq get_current_user_def get_user_def)
  from accept_task_iff [of "Some 2" live_db 1] ub r
  have "fst (accept_task (Some 2) 1 live_db) = Redirect Index (Some (Task_accepted ''Notes''))"
    and "get_request (snd (accept_task (Some 2) 1 live_db)) 1
           = Some (?r\<lparr>helper_id := Some 2, status := ''Accepted''\<rparr>)"
    by simp_all
  moreover from accept_task_iff [of "Some 1" live_db 1] ua r
  have "\<nexists>t. fst (accept_task (Some 1) 1 live_db) = Redirect Index (Some (Task_accepted t))"
    by simp
  moreover from this accept_task_iff [of "Some 1" live_db 1]
  have "snd (accept_task (Some 1) 1 live_db) = live_db"
    by blast
  ultimately show ?thesis
    using ua ub by simp
qed

text \<open>
  C2 (as amended). For a resolved requester and a POST to \<open>create_request\<close>: when the form
  carries a title and a description and the balance is at least the reward, one Live request
  with that reward is appended, the requester's balance decreases by exactly the reward and
  no other user changes; when the balance is below the reward the response is the
  insufficient-coins notice and the database is unchanged. (With enough coins but no title
  or no description the commit fails on the NOT NULL column: IntegrityError, database
  unchanged.)
\<close>

theorem create_request_escrow:
  assumes "get_current_user sess d = Some u"
  shows
    "(dict_get XP_MAPPING df 10 \<le> coins u \<longrightarrow>
        (\<exists>r. requests (snd (create_request POST sess (Some t) (Some ds) df now d))
               = requests d @ [r]
             \<and> reward_coins r = dict_get XP_MAPPING df 10
             \<and> requester_id r = u_id u \<and> status r = ''Live'' \<and> helper_id r = None) \<and>
        get_user (snd (create_request POST sess (Some t) (Some ds) df now d)) (u_id u)
          = Some (u\<lparr>coins := coins u - dict_get XP_MAPPING df 10\<rparr>) \<and>
        (\<forall>j. j \<noteq> u_id u \<longrightarrow>
           get_user (snd (create_request POST sess (Some t) (Some ds) df now d)) j
             = get_user d j) \<and>
        sum_list (map coins (users (snd (create_request POST sess (Some t) (Some ds) df now d))))
          = sum_list (map coins (users d)) - dict_get XP_MAPPING df 10) \<and>
     (coins u < dict_get XP_MAPPING df 10 \<longrightarrow>
        create_request POST sess ft fd df now d
          = (Redirect Create_request (Some (Not_enough_coins (dict_get XP_MAPPING df 10))), d)) \<and>
     (dict_get XP_MAPPING df 10 \<le> coins u \<and> (ft = None \<or> fd = None) \<longrightarrow>
        create_request POST sess ft fd df now d = (Raised IntegrityError, d))"
proof (intro conjI impI)
  let ?rw = "dict_get XP_MAPPING df 10"
  let ?d' = "snd (create_request POST sess (Some t) (Some ds) df now d)"
  assume ok: "?rw \<le> coins u"
  have d': "?d' = d\<lparr>users := update_row (\<lambda>x. u_id x = u_id u)
                               (\<lambda>x. x\<lparr>coins := coins x - ?rw\<rparr>) (users d),
                   requests := requests d @
                     [\<lparr>r_id = next_id (map r_id (requests d)), title = t, description = ds,
                       reward_coins = ?rw,
                       difficulty = (case df of None \<Rightarrow> ''Medium'' | Some l \<Rightarrow> l),
                       xp_value = ?rw, requester_id = u_id u, helper_id = None,
                       status = ''Live'', r_timestamp = now\<rparr>]\<rparr>"
    using assms ok by (simp add: create_request_def Let_def)
  show "\<exists>r. requests ?d' = requests d @ [r] \<and> reward_coins r = ?rw
             \<and> requester_id r = u_id u \<and> status r = ''Live'' \<and> helper_id r = None"
    by (simp add: d')
  have gu: "get_user ?d' j =
            (if j = u_id u then map_option (\<lambda>x. x\<lparr>coins := coins x - ?rw\<rparr>) (get_user d (u_id u))
             else get_user d j)" for j
    using find_update_row [of u_id "\<lambda>x. x\<lparr>coins := coins x - ?rw\<rparr>" j "u_id u" "users d"]
    by (simp add: d' get_user_def)
  show "get_user ?d' (u_id u) = Some (u\<lparr>coins := coins u - ?rw\<rparr>)"
    using get_current_user_Some [OF assms] by (simp add: gu)
  show "\<forall>j. j \<noteq> u_id u \<longrightarrow> get_user ?d' j = get_user d j"
    by (simp add: gu)
  show "sum_list (map coins (users ?d')) = sum_list (map coins (users d)) - ?rw"
    using sum_list_update_row [of coins "\<lambda>x. u_id x = u_id u"
            "\<lambda>x. x\<lparr>coins := coins x - ?rw\<rparr>" "users d"]
      get_current_user_find [OF assms]
    by (simp add: d')
next
  assume "coins u < dict_get XP_MAPPING df 10"
  then show "create_request POST sess ft fd df now d
          = (Redirect Create_request (Some (Not_enough_coins (dict_get XP_MAPPING df 10))), d)"
    using assms by (simp add: create_request_def Let_def)
next
  assume "dict_get XP_MAPPING df 10 \<le> coins u \<and> (ft = None \<or> fd = None)"
  then show "create_request POST sess ft fd df now d = (Raised IntegrityError, d)"
    using assms by (auto simp: create_request_def Let_def split: option.splits)
qed

theorem create_request_escrow_witness:
  "map_option coins (get_current_user (Some 1) seed_db) = Some 500 \<and>
   map reward_coins (requests live_db) = [25] \<and>
   map_option coins (get_user live_db 1) = Some 475 \<and>
   get_user live_db 2 = get_user seed_db 2 \<and>
   map_option coins (get_current_user (Some 1) thin_db) = Some 5 \<and>
   create_request POST (Some 1) (Some ''Notes'') (Some ''Lend me your notes'') (Some ''Easy'') 7
       thin_db
     = (Redirect Create_request (Some (Not_enough_coins 10)), thin_db) \<and>
   create_request POST (Some 1) (Some ''Notes'') None (Some ''Hard'') 7 seed_db
     = (Raised IntegrityError, seed_db)"
proof -
  let ?a = "\<lparr>u_id = 1, username = ''RequesterA'', password_hash = ''pw'', coins = 500,
          experience_points = 120\<rparr>"
  let ?n = "\<lparr>u_id = 1, username = ''Newcomer'', password_hash = ''pw'', coins = 5,
          experience_points = 0\<rparr>"
  have a: "get_current_user (Some 1) seed_db = Some ?a"
    by (simp add: seed_db_def get_current_user_def get_user_def)
  have n: "get_current_user (Some 1) thin_db = Some ?n"
    by (simp add: thin_db_def get_current_user_def get_user_def)
  have m: "dict_get XP_MAPPING (Some ''Medium'') 10 = 25"
    and e: "dict_get XP_MAPPING (Some ''Easy'') 10 = 10"
    and h: "dict_get XP_MAPPING (Some ''Hard'') 10 = 50"
    by (simp_all add: dict_get_def XP_MAPPING_def)
  note w1 = create_request_escrow [OF a, where df = "Some ''Medium''" and t = "''Notes''"
      and ds = "''Lend me your notes''" and now = 7 and ft = None and fd = None,
      folded live_db_def, unfolded m]
  note w2 = create_request_escrow [OF n, where df = "Some ''Easy''" and ft = "Some ''Notes''"
      and fd = "Some ''Lend me your notes''" and now = 7 and t = "[]" and ds = "[]",
      unfolded e]
  note w3 = create_request_escrow [OF a, where df = "Some ''Hard''" and ft = "Some ''Notes''"
      and fd = None and now = 7 and t = "[]" and ds = "[]", unfolded h]
  from w1 have "map reward_coins (requests live_db) = [25]"
    and "map_option coins (get_user live_db 1) = Some 475"
    and "get_user live_db 2 = get_user seed_db 2"
    by (auto simp: seed_db_def)
  moreover from w2 have "create_request POST (Some 1) (Some ''Notes'')
       (Some ''Lend me your notes'') (Some ''Easy'') 7 thin_db
     = (Redirect Create_request (Some (Not_enough_coins 10)), thin_db)"
    by simp
  moreover from w3 have "create_request POST (Some 1) (Some ''Notes'') None (Some ''Hard'') 7
       seed_db = (Raised IntegrityError, seed_db)"
    by simp
  ultimately show ?thesis
    using a n by simp
qed

text \<open>
  C2 as stated fails: RequesterA holds 500 coins, the Easy reward is 10, the form has no
  title field, and no request is created.
\<close>

theorem create_request_counterexample:
  "map_option coins (get_current_user (Some 1) seed_db) = Some 500 \<and>
   dict_get XP_MAPPING (Some ''Easy'') 10 = 10 \<and>
   create_request POST (Some 1) None (Some ''Lend me your notes'') (Some ''Easy'') 7 seed_db
     = (Raised IntegrityError, seed_db)"
  by (simp add: seed_db_def create_request_def get_current_user_def get_user_def dict_get_def
      XP_MAPPING_def)

text \<open>
  C5. Whatever \<open>create_request\<close> appends to the request table is one row whose \<open>xp_value\<close>
  equals its \<open>reward_coins\<close>: 10 for Easy, 25 for Medium, 50 for Hard, and 10 for every
  other label (or none).
\<close>

theorem created_request_values:
  "requests (snd (create_request meth sess ft fd df now d)) = requests d \<or>
   (\<exists>r. requests (snd (create_request meth sess ft fd df now d)) = requests d @ [r] \<and>
        xp_value r = reward_coins r \<and>
        (df = Some ''Easy'' \<longrightarrow> xp_value r = 10) \<and>
        (df = Some ''Medium'' \<longrightarrow> xp_value r = 25) \<and>
        (df = Some ''Hard'' \<longrightarrow> xp_value r = 50) \<and>
        (df \<noteq> Some ''Easy'' \<and> df \<noteq> Some ''Medium'' \<and> df \<noteq> Some ''Hard'' \<longrightarrow> xp_value r = 10))"
  by (auto simp: create_request_def Let_def dict_get_def XP_MAPPING_def
      split: option.splits if_splits)

theorem created_request_values_witness:
  "map xp_value (requests live_db) = [25] \<and> map reward_coins (requests live_db) = [25] \<and>
   map xp_value (requests (snd (create_request POST (Some 1) (Some ''Notes'')
          (Some ''Lend me your notes'') (Some ''Epic'') 7 seed_db))) = [10]"
proof -
  have l: "requests live_db \<noteq> requests seed_db"
    by (simp add: live_db_eq seed_db_def)
  have "requests (snd (create_request POST (Some 1) (Some ''Notes'')
          (Some ''Lend me your notes'') (Some ''Epic'') 7 seed_db)) \<noteq> requests seed_db"
    by (simp add: seed_db_def create_request_def get_current_user_def get_user_def dict_get_def
        XP_MAPPING_def)
  with created_request_values [of POST "Some 1" "Some ''Notes''" "Some ''Lend me your notes''"
      "Some ''Epic''" 7 seed_db]
  have "map xp_value (requests (snd (create_request POST (Some 1) (Some ''Notes'')
          (Some ''Lend me your notes'') (Some ''Epic'') 7 seed_db))) = [10]"
    by (auto simp: seed_db_def)
  moreover from l created_request_values [of POST "Some 1" "Some ''Notes''"
      "Some ''Lend me your notes''" "Some ''Medium''" 7 seed_db, folded live_db_def]
  have "map xp_value (requests live_db) = [25] \<and> map reward_coins (requests live_db) = [25]"
    by (auto simp: seed_db_def)
  ultimately show ?thesis by simp
qed

text \<open>
  C10. In a reachable database none of create, accept, confirm and approve changes the sum of
  all balances plus the rewards of the requests that are not Completed.
\<close>

theorem coins_conserved:
  assumes "reachable d"
  shows "total_coins (snd (create_request meth sess ft fd df now d)) = total_coins d \<and>
         total_coins (snd (accept_task sess k d)) = total_coins d \<and>
         total_coins (snd (helper_confirm sess k d)) = total_coins d \<and>
         total_coins (snd (requester_approve sess k d)) = total_coins d"
  using total_create total_accept total_confirm
    total_approve [OF reachable_helper_present [OF assms]]
  by simp

theorem coins_conserved_witness:
  "reachable seed_db \<and> total_coins seed_db = 600 \<and> total_coins live_db = 600 \<and>
   reachable live_db \<and> total_coins accepted_db = 600 \<and>
   reachable accepted_db \<and> total_coins confirmed_db = 600 \<and>
   reachable confirmed_db \<and> total_coins completed_db = 600"
proof -
  have s: "total_coins seed_db = 600"
    by (simp add: total_coins_def seed_db_def)
  note a = coins_conserved [OF reachable_seed_db, where meth = POST and sess = "Some 1"
      and ft = "Some ''Notes''" and fd = "Some ''Lend me your notes''"
      and df = "Some ''Medium''" and now = 7, folded live_db_def]
  note b = coins_conserved [OF reachable_live_db, where sess = "Some 2" and k = 1,
      folded accepted_db_def]
  note c = coins_conserved [OF reachable_accepted_db, where sess = "Some 2" and k = 1,
      folded confirmed_db_def]
  note e = coins_conserved [OF reachable_confirmed_db, where sess = "Some 1" and k = 1,
      folded completed_db_def]
  from a s have 1: "total_coins live_db = 600" by simp
  from b 1 have 2: "total_coins accepted_db = 600" by simp
  from c 2 have 3: "total_coins confirmed_db = 600" by simp
  from e 3 have 4: "total_coins completed_db = 600" by simp
  show ?thesis
    using s 1 2 3 4 reachable_seed_db reachable_live_db reachable_accepted_db
      reachable_confirmed_db
    by simp
qed

text \<open>
  C7. \<open>send_message\<close> with non-empty content from the requester or the assigned helper
  appends one message (that request, that sender, that content); from a resolved user who is
  neither it appends nothing and answers not-authorized; with empty or absent content it
  appends nothing. The messages \<open>chat_view\<close> renders are the request's messages in ascending
  timestamp order.
\<close>

theorem send_message_rules:
  "(\<forall>r u. get_request d k = Some r \<and> get_current_user sess d = Some u
          \<and> (requester_id r = u_id u \<or> helper_id r = Some (u_id u)) \<and> c \<noteq> [] \<longrightarrow>
      send_message sess k (Some c) now d =
        (Redirect (Chat_view k) None,
         d\<lparr>messages := messages d @
              [\<lparr>m_id = next_id (map m_id (messages d)), request_id = k,
                sender_id = u_id u, content = c, m_timestamp = now\<rparr>]\<rparr>)) \<and>
   (\<forall>r u. get_request d k = Some r \<and> get_current_user sess d = Some u
          \<and> requester_id r \<noteq> u_id u \<and> helper_id r \<noteq> Some (u_id u) \<longrightarrow>
      snd (send_message sess k fc now d) = d \<and>
      (c \<noteq> [] \<longrightarrow>
         fst (send_message sess k (Some c) now d) = Redirect Index (Some Chat_not_authorized))) \<and>
   (fc = None \<or> fc = Some [] \<longrightarrow>
      send_message sess k fc now d = (Redirect (Chat_view k) (Some Cannot_send), d)) \<and>
   (\<forall>u r msgs p d'. chat_view sess k d = (Render_chat u r msgs p, d') \<longrightarrow>
      sorted (map m_timestamp msgs) \<and>
      mset msgs = mset (filter (\<lambda>m. request_id m = k) (messages d)))"
proof (intro conjI allI impI)
  fix r u
  assume "get_request d k = Some r \<and> get_current_user sess d = Some u
          \<and> (requester_id r = u_id u \<or> helper_id r = Some (u_id u)) \<and> c \<noteq> []"
  then show "send_message sess k (Some c) now d =
        (Redirect (Chat_view k) None,
         d\<lparr>messages := messages d @
              [\<lparr>m_id = next_id (map m_id (messages d)), request_id = k,
                sender_id = u_id u, content = c, m_timestamp = now\<rparr>]\<rparr>)"
    by (cases c) (auto simp: send_message_def)
next
  fix r u
  assume a: "get_request d k = Some r \<and> get_current_user sess d = Some u
          \<and> requester_id r \<noteq> u_id u \<and> helper_id r \<noteq> Some (u_id u)"
  then show "snd (send_message sess k fc now d) = d"
    by (auto simp: send_message_def split: option.splits list.splits)
  show "fst (send_message sess k (Some c) now d) = Redirect Index (Some Chat_not_authorized)"
    if "c \<noteq> []"
    using a that by (cases c) (auto simp: send_message_def)
next
  assume "fc = None \<or> fc = Some []"
  then show "send_message sess k fc now d = (Redirect (Chat_view k) (Some Cannot_send), d)"
    by (auto simp: send_message_def)
next
  fix u r msgs p d'
  assume "chat_view sess k d = (Render_chat u r msgs p, d')"
  then have m: "msgs = sort_key m_timestamp (filter (\<lambda>m. request_id m = k) (messages d))"
    by (auto simp: chat_view_def Let_def split: option.splits if_splits)
  show "sorted (map m_timestamp msgs)"
    by (simp add: m)
  show "mset msgs = mset (filter (\<lambda>m. request_id m = k) (messages d))"
    by (simp add: m)
qed

theorem send_message_rules_witness:
  "map content (messages (snd (send_message (Some 2) 1 (Some ''On my way'') 12 accepted_db)))
     = [''On my way''] \<and>
   fst (send_message (Some 1) 1 (Some ''Thanks'') 9 accepted_db) = Redirect (Chat_view 1) None \<and>
   send_message (Some 3) 1 (Some ''Hello'') 9 crowd_db
     = (Redirect Index (Some Chat_not_authorized), crowd_db) \<and>
   send_message (Some 1) 1 (Some []) 9 accepted_db
     = (Redirect (Chat_view 1) (Some Cannot_send), accepted_db) \<and>
   map m_timestamp (messages chat_db) = [12, 9] \<and>
   (\<exists>u r msgs p. chat_view (Some 1) 1 chat_db = (Render_chat u r msgs p, chat_db) \<and>
      map m_timestamp msgs = [9, 12] \<and> sorted (map m_timestamp msgs))"
proof -
  let ?r = "\<lparr>r_id = 1, title = ''Notes'', description = ''Lend me your notes'',
          reward_coins = 25, difficulty = ''Medium'', xp_value = 25, requester_id = 1,
          helper_id = Some 2, status = ''Accepted'', r_timestamp = 7\<rparr>"
  let ?a = "\<lparr>u_id = 1, username = ''RequesterA'', password_hash = ''pw'', coins = 475,
          experience_points = 120\<rparr>"
  let ?b = "\<lparr>u_id = 2, username = ''HelperB'', password_hash = ''pw'', coins = 100,
          experience_points = 60\<rparr>"
  let ?c = "\<lparr>u_id = 3, username = ''BystanderC'', password_hash = ''pw'', coins = 100,
         experience_points = 0\<rparr>"
  let ?m1 = "\<lparr>m_id = 1, request_id = 1, sender_id = 2, content = ''On my way'',
             m_timestamp = 12\<rparr>"
  let ?m2 = "\<lparr>m_id = 2, request_id = 1, sender_id = 1, content = ''Thanks'',
             m_timestamp = 9\<rparr>"
  have r: "get_request accepted_db 1 = Some ?r" "get_request crowd_db 1 = Some ?r"
    by (simp_all add: crowd_db_def accepted_db_eq get_request_def)
  have u: "get_current_user (Some 1) accepted_db = Some ?a"
    "get_current_user (Some 2) accepted_db = Some ?b"
    "get_current_user (Some 3) crowd_db = Some ?c"
    by (simp_all add: crowd_db_def accepted_db_eq get_current_user_def get_user_def)
  have 1: "map content (messages (snd (send_message (Some 2) 1 (Some ''On my way'') 12
             accepted_db))) = [''On my way'']"
    using send_message_rules [where d = accepted_db and k = 1 and sess = "Some 2"
        and c = "''On my way''" and now = 12 and fc = None] r u
    by (simp add: accepted_db_eq)
  have 2: "fst (send_message (Some 1) 1 (Some ''Thanks'') 9 accepted_db)
           = Redirect (Chat_view 1) None"
    using send_message_rules [where d = accepted_db and k = 1 and sess = "Some 1"
        and c = "''Thanks''" and now = 9 and fc = None] r u
    by simp
  have 3: "send_message (Some 3) 1 (Some ''Hello'') 9 crowd_db
           = (Redirect Index (Some Chat_not_authorized), crowd_db)"
    using send_message_rules [where d = crowd_db and k = 1 and sess = "Some 3"
        and c = "''Hello''" and now = 9 and fc = "Some ''Hello''"] r u
    by (simp add: prod_eq_iff)
  have 4: "send_message (Some 1) 1 (Some []) 9 accepted_db
           = (Redirect (Chat_view 1) (Some Cannot_send), accepted_db)"
    using send_message_rules [where d = accepted_db and k = 1 and sess = "Some 1"
        and c = "[]" and now = 9 and fc = "Some []"]
    by simp
  have v: "chat_view (Some 1) 1 chat_db = (Render_chat ?a ?r [?m2, ?m1] (Some ?b), chat_db)"
    by (simp add: chat_db_eq accepted_db_eq chat_view_def get_request_def
        get_current_user_def get_user_def)
  have 5: "sorted (map m_timestamp [?m2, ?m1])"
    using send_message_rules [where d = chat_db and k = 1 and sess = "Some 1"
        and c = "[]" and fc = None and now = 0] v
    by blast
  have 6: "map m_timestamp (messages chat_db) = [12, 9]"
    by (simp add: chat_db_eq)
  show ?thesis
    using 1 2 3 4 5 6 v by simp
qed

text \<open>
  C8. The leaderboard that \<open>index\<close> renders is \<open>leaderboard\<close> of the whole user table: the ten
  users (all of them when there are fewer) that rank highest, listed in descending order,
  where one user ranks at or above another when he has more experience points, or as many
  and more coins, or as many of both and a username that is not smaller. Every user left out
  ranks at or below every user listed. For the users (500,10,b), (500,20,a), (100,0,c) the
  order is a, b, c.
\<close>

theorem leaderboard_top_ten:
  "length (leaderboard us) = min 10 (length us) \<and>
   mset (leaderboard us) \<subseteq># mset us \<and>
   sorted_wrt
     (\<lambda>a b. experience_points b < experience_points a
            \<or> (experience_points b = experience_points a
               \<and> (coins b < coins a \<or> (coins b = coins a \<and> username b \<le> username a))))
     (leaderboard us) \<and>
   (\<forall>u \<in># mset us - mset (leaderboard us). \<forall>v \<in> set (leaderboard us).
      experience_points u < experience_points v
      \<or> (experience_points u = experience_points v
         \<and> (coins u < coins v \<or> (coins u = coins v \<and> username u \<le> username v)))) \<and>
   (\<forall>cu. get_current_user sess d = Some cu \<longrightarrow>
      (\<exists>live mine rank.
         index sess d = (Render_dashboard cu live mine rank (leaderboard (users d)), d))) \<and>
   map (\<lambda>u. (experience_points u, coins u, username u)) spec_users
     = [(500, 10, ''b''), (500, 20, ''a''), (100, 0, ''c'')] \<and>
   map username (leaderboard spec_users) = [''a'', ''b'', ''c'']"
proof (intro conjI)
  let ?full = "sorted_reverse leaderboard_key us"
  have split: "?full = leaderboard us @ drop 10 ?full"
    by (simp add: leaderboard_def)
  have ms: "mset us = mset (leaderboard us) + mset (drop 10 ?full)"
    using sorted_reverse_mset [of leaderboard_key us] split
    by (metis mset_append)
  have desc: "sorted_wrt (\<lambda>a b. leaderboard_key b \<le> leaderboard_key a)
                (leaderboard us @ drop 10 ?full)"
    using sorted_reverse_desc [of leaderboard_key us] split by simp
  show "length (leaderboard us) = min 10 (length us)"
    using sorted_reverse_mset [of leaderboard_key us, THEN arg_cong [where f = size]]
    by (simp add: leaderboard_def min_def)
  show "mset (leaderboard us) \<subseteq># mset us"
    by (simp add: ms)
  have "sorted_wrt (\<lambda>a b. leaderboard_key b \<le> leaderboard_key a) (leaderboard us)"
    using desc by (simp add: sorted_wrt_append)
  then show "sorted_wrt
     (\<lambda>a b. experience_points b < experience_points a
            \<or> (experience_points b = experience_points a
               \<and> (coins b < coins a \<or> (coins b = coins a \<and> username b \<le> username a))))
     (leaderboard us)"
    by (simp add: leaderboard_key_le)
  have "\<forall>u \<in># mset us - mset (leaderboard us). \<forall>v \<in> set (leaderboard us).
          leaderboard_key u \<le> leaderboard_key v"
    using desc by (auto simp: ms sorted_wrt_append)
  then show "\<forall>u \<in># mset us - mset (leaderboard us). \<forall>v \<in> set (leaderboard us).
      experience_points u < experience_points v
      \<or> (experience_points u = experience_points v
         \<and> (coins u < coins v \<or> (coins u = coins v \<and> username u \<le> username v)))"
    by (simp add: leaderboard_key_le)
  show "\<forall>cu. get_current_user sess d = Some cu \<longrightarrow>
      (\<exists>live mine rank.
         index sess d = (Render_dashboard cu live mine rank (leaderboard (users d)), d))"
    using index_renders_leaderboard by blast
  show "map (\<lambda>u. (experience_points u, coins u, username u)) spec_users
     = [(500, 10, ''b''), (500, 20, ''a''), (100, 0, ''c'')]"
    by (simp add: spec_users_def)
  show "map username (leaderboard spec_users) = [''a'', ''b'', ''c'']"
    by (simp add: leaderboard_def sorted_reverse_def leaderboard_key_def spec_users_def)
qed

theorem leaderboard_top_ten_witness:
  "length many_users = 11 \<and>
   map u_id (leaderboard many_users) = [11, 10, 9, 8, 7, 6, 5, 4, 3, 2] \<and>
   hd many_users \<in># mset many_users - mset (leaderboard many_users) \<and>
   list_all
     (\<lambda>v. experience_points (hd many_users) < experience_points v
         \<or> (experience_points (hd many_users) = experience_points v
            \<and> (coins (hd many_users) < coins v
               \<or> (coins (hd many_users) = coins v
                  \<and> username (hd many_users) \<le> username v))))
     (leaderboard many_users) \<and>
   length (leaderboard spec_users) = 3 \<and>
   map username (leaderboard spec_users) = [''a'', ''b'', ''c''] \<and>
   (\<exists>cu live mine rank lb.
      index (Some 2) mixed_db = (Render_dashboard cu live mine rank lb, mixed_db) \<and>
      map username lb = [''veteran'', ''bob'', ''ann'', ''novice''] \<and>
      map experience_points lb = [300, 50, 50, 10] \<and>
      map coins lb = [5, 50, 50, 900])"
proof -
  have l: "length many_users = 11"
    by (simp add: many_users_def)
  have lb: "leaderboard many_users = rev (tl many_users)"
    by code_simp
  have "many_users \<noteq> []"
    using l by auto
  then have "many_users = hd many_users # tl many_users"
    by simp
  then have "mset many_users = add_mset (hd many_users) (mset (leaderboard many_users))"
    by (metis lb mset.simps(2) mset_rev)
  then have h: "hd many_users \<in># mset many_users - mset (leaderboard many_users)"
    by simp
  note t = leaderboard_top_ten [where us = many_users and sess = None and d = mixed_db]
  from t h have 1: "list_all
       (\<lambda>v. experience_points (hd many_users) < experience_points v
           \<or> (experience_points (hd many_users) = experience_points v
              \<and> (coins (hd many_users) < coins v
                 \<or> (coins (hd many_users) = coins v
                    \<and> username (hd many_users) \<le> username v))))
       (leaderboard many_users)"
    unfolding list_all_iff by blast
  have cu: "get_current_user (Some 2) mixed_db
            = Some \<lparr>u_id = 2, username = ''ann'', password_hash = ''pw'', coins = 50,
                    experience_points = 50\<rparr>"
    by (simp add: mixed_db_def get_current_user_def get_user_def)
  note s = leaderboard_top_ten [where us = spec_users and sess = "Some 2" and d = mixed_db]
  from s have 2: "length (leaderboard spec_users) = 3"
    "map username (leaderboard spec_users) = [''a'', ''b'', ''c'']"
    by (simp_all add: spec_users_def)
  from s cu obtain live mine rank where
    i: "index (Some 2) mixed_db =
        (Render_dashboard \<lparr>u_id = 2, username = ''ann'', password_hash = ''pw'', coins = 50,
                    experience_points = 50\<rparr> live mine rank (leaderboard (users mixed_db)),
         mixed_db)"
    by blast
  have 3: "map username (leaderboard (users mixed_db)) = [''veteran'', ''bob'', ''ann'', ''novice'']"
    "map experience_points (leaderboard (users mixed_db)) = [300, 50, 50, 10]"
    "map coins (leaderboard (users mixed_db)) = [5, 50, 50, 900]"
    by code_simp+
  show ?thesis
    using l h many_users_eq 1 2 3 i by simp
qed

text \<open>
  C4. Handlers do raise: with no resolved acting user \<open>accept_task\<close>, \<open>helper_confirm\<close>,
  \<open>requester_approve\<close>, \<open>chat_view\<close> and \<open>send_message\<close> read \<open>.id\<close> of \<open>None\<close> (AttributeError);
  \<open>requester_approve\<close> with no helper row writes Completed and then reads the unbound
  \<open>new_rank\<close> (UnboundLocalError); \<open>create_request\<close> without title and description fails at
  the commit (IntegrityError).
\<close>

theorem unhandled_exceptions:
  "accept_task None 1 live_db = (Raised AttributeError, live_db) \<and>
   helper_confirm None 1 accepted_db = (Raised AttributeError, accepted_db) \<and>
   requester_approve None 1 confirmed_db = (Raised AttributeError, confirmed_db) \<and>
   chat_view None 1 accepted_db = (Raised AttributeError, accepted_db) \<and>
   send_message None 1 (Some ''Hello'') 9 accepted_db = (Raised AttributeError, accepted_db) \<and>
   fst (requester_approve (Some 1) 1 orphan_db) = Raised UnboundLocalError \<and>
   map status (requests (snd (requester_approve (Some 1) 1 orphan_db))) = [''Completed''] \<and>
   create_request POST (Some 1) None None (Some ''Easy'') 7 seed_db
     = (Raised IntegrityError, seed_db)"
  by (simp add: live_db_eq accepted_db_eq confirmed_db_eq orphan_db_def seed_db_def
      accept_task_def helper_confirm_def requester_approve_def chat_view_def send_message_def
      create_request_def get_request_def get_current_user_def get_user_def dict_get_def
      XP_MAPPING_def)

theorem unhandled_exceptions_witness:
  "fst (accept_task None 1 live_db) = Raised AttributeError \<and>
   snd (accept_task None 1 live_db) = live_db \<and>
   fst (requester_approve (Some 1) 1 orphan_db) = Raised UnboundLocalError"
  using unhandled_exceptions by simp

end
